theory Spec2Isabelle
  imports Main "HOL-Library.AList"
begin

section \<open>JavaScript values and objects\<close>

text \<open>
  The import module works on untyped spreadsheet cells and database rows. A value is one
  of the JavaScript kinds that reach the code. Numbers are the integers (device ids, row
  counts, epoch milliseconds), of a size that JavaScript prints in decimal digits; a
  \<open>Date\<close> is given by its epoch milliseconds.
\<close>

datatype jsval =
    JUndefined
  | JNull
  | JBool bool
  | JNumber int
  | JString string
  | JDate int

text \<open>
  An object is its list of own properties in insertion order; \<open>obj[key]\<close> of a missing
  property is \<open>undefined\<close>, and an assignment keeps the position of a key already there.
\<close>

type_synonym jsobj = "(string \<times> jsval) list"

definition js_get :: "jsobj \<Rightarrow> string \<Rightarrow> jsval" where
  "js_get obj key = (case map_of obj key of None \<Rightarrow> JUndefined | Some v \<Rightarrow> v)"

definition Object_keys :: "(string \<times> 'a) list \<Rightarrow> string list" where
  "Object_keys obj = map fst obj"

definition assign :: "(string \<times> 'a) list \<Rightarrow> string \<Rightarrow> 'a \<Rightarrow> (string \<times> 'a) list" where
  "assign obj key v = AList.update key v obj"

text \<open>The object spread \<open>{...a, ...b}\<close>.\<close>

definition spread :: "(string \<times> 'a) list \<Rightarrow> (string \<times> 'a) list \<Rightarrow> (string \<times> 'a) list" where
  "spread a b = fold (\<lambda>(k, v) acc. assign acc k v) b a"

fun truthy :: "jsval \<Rightarrow> bool" where
  "truthy JUndefined = False"
| "truthy JNull = False"
| "truthy (JBool b) = b"
| "truthy (JNumber n) = (n \<noteq> 0)"
| "truthy (JString s) = (s \<noteq> [])"
| "truthy (JDate t) = True"

fun nullish :: "jsval \<Rightarrow> bool" where
  "nullish JUndefined = True"
| "nullish JNull = True"
| "nullish v = False"

text \<open>The operator \<open>a ?? b\<close>.\<close>

definition coalesce :: "jsval \<Rightarrow> jsval \<Rightarrow> jsval" where
  "coalesce a b = (if nullish a then b else a)"

text \<open>The operator \<open>===\<close>: two \<open>Date\<close> objects are equal only when they are the same object.\<close>

fun strict_eq :: "jsval \<Rightarrow> jsval \<Rightarrow> bool" where
  "strict_eq (JDate s) v = False"
| "strict_eq v (JDate t) = False"
| "strict_eq v w = (v = w)"

subsection \<open>Conversion to strings\<close>

definition digit :: "nat \<Rightarrow> char" where
  "digit d = ''0123456789'' ! d"

fun string_of_nat :: "nat \<Rightarrow> string" where
  "string_of_nat n =
     (if n < 10 then [digit n] else string_of_nat (n div 10) @ [digit (n mod 10)])"

declare string_of_nat.simps [simp del]

definition string_of_int :: "int \<Rightarrow> string" where
  "string_of_int i =
     (if i < 0 then CHR ''-'' # string_of_nat (nat (- i)) else string_of_nat (nat i))"

text \<open>
  What a template literal writes for a value. The text of a \<open>Date\<close> depends on the
  time zone of the host and is a parameter.
\<close>

fun js_String :: "(int \<Rightarrow> string) \<Rightarrow> jsval \<Rightarrow> string" where
  "js_String ds JUndefined = ''undefined''"
| "js_String ds JNull = ''null''"
| "js_String ds (JBool b) = (if b then ''true'' else ''false'')"
| "js_String ds (JNumber n) = string_of_int n"
| "js_String ds (JString s) = s"
| "js_String ds (JDate t) = ds t"

section \<open>The bulk response and the collaborators of the import\<close>

text \<open>\<open>IBulkResponse\<close>: the error entries and the result entries of a bulk operation.\<close>

record bulk_error =
  row :: string
  rownum :: nat
  error :: string

record IBulkResponse =
  errors :: "bulk_error list"
  results :: "jsobj list"

datatype entity = device | animal

text \<open>The body of the call that links a collar to a critter.\<close>

record HistoricalAttachmentProps =
  collar_id :: jsval
  critter_id :: jsval
  attachment_start :: jsval
  data_life_start :: jsval
  attachment_end :: jsval
  data_life_end :: jsval

text \<open>
  \<open>query\<close> either throws, or returns a \<open>QResult\<close> of which the code can read the flag
  \<open>isError\<close>.
\<close>

datatype query_outcome = Throws string | Returns bool

text \<open>
  The calls to the database that the properties below speak about, in the order they are
  issued: the two writes of the orchestrator, and the three cross-row lookups of the
  validation.
\<close>

datatype db_call =
    UpsertBulk string entity "jsobj list"
  | LinkCollar string HistoricalAttachmentProps
  | DeviceAssignmentHistory jsval
  | AnimalAssignmentHistory string jsval
  | IsNewAnimal jsobj


text \<open>
  The functions the orchestrator imports from other modules, and the clock: what
  \<open>upsertBulk\<close> answers, what the link query answers for the task of a row, how
  \<open>rowToCsv\<close> prints a row.
\<close>

record bulk_env =
  upsertBulk :: "string \<Rightarrow> jsobj list \<Rightarrow> entity \<Rightarrow> IBulkResponse"
  link_query :: "nat \<Rightarrow> string \<Rightarrow> HistoricalAttachmentProps \<Rightarrow> query_outcome"
  rowToCsv :: "jsobj \<Rightarrow> string"
  dateString :: "int \<Rightarrow> string"
  dayjs_now :: int

section \<open>Attaching the collars: \<open>handleCollarCritterLink\<close>\<close>

datatype settled = fulfilled | rejected string

text \<open>
  \<open>collarResults.find((dr) => dr.device_id.toString() === row.device_id.toString())\<close>:
  the call of \<open>toString\<close> on a missing device id throws a \<open>TypeError\<close>, which rejects the
  task of the row.
\<close>

definition toString_TypeError :: "jsval \<Rightarrow> string" where
  "toString_TypeError v =
     ''TypeError: Cannot read properties of '' @ js_String (\<lambda>t. []) v @ '' (reading 'toString')''"

fun find_collar :: "(int \<Rightarrow> string) \<Rightarrow> jsval \<Rightarrow> jsobj list \<Rightarrow> string + jsobj option" where
  "find_collar ds d [] = Inr None"
| "find_collar ds d (dr # drs) =
     (if nullish (js_get dr ''device_id'') then Inl (toString_TypeError (js_get dr ''device_id''))
      else if nullish d then Inl (toString_TypeError d)
      else if js_String ds (js_get dr ''device_id'') = js_String ds d then Inr (Some dr)
      else find_collar ds d drs)"

text \<open>
  The part of a row's task that runs before its first \<open>await\<close>: the task settles at once
  (possibly after pushing an error to the bulk response), or it issues the link query.
\<close>

datatype task_step = Settles settled "bulk_error list" | Awaits HistoricalAttachmentProps

definition no_collar_error :: "bulk_env \<Rightarrow> nat \<times> jsobj \<Rightarrow> bulk_error" where
  "no_collar_error env c =
     (case c of (rowIndex, r) \<Rightarrow>
        \<lparr>row = rowToCsv env r, rownum = rowIndex,
         error = ''unable to find matching collar with device ID ''
                 @ js_String (dateString env) (js_get r ''device_id'')\<rparr>)"

definition link_task ::
  "bulk_env \<Rightarrow> jsobj list \<Rightarrow> jsobj list \<Rightarrow> nat \<times> jsobj \<Rightarrow> task_step" where
  "link_task env critterResults collarResults c =
     (case c of (rowIndex, r) \<Rightarrow>
      (case find (\<lambda>cr. strict_eq (js_get cr ''animal_id'') (js_get r ''animal_id'')) critterResults of
         None \<Rightarrow> Settles fulfilled []
       | Some savedCritter \<Rightarrow>
          (case find_collar (dateString env) (js_get r ''device_id'') collarResults of
             Inl e \<Rightarrow> Settles (rejected e) []
           | Inr None \<Rightarrow>
               Settles fulfilled [no_collar_error env c]
           | Inr (Some matchingCollar) \<Rightarrow>
               (let attachment_start =
                      coalesce (js_get savedCritter ''capture_date'') (JDate (dayjs_now env));
                    attachment_end =
                      coalesce (js_get savedCritter ''mortality_date'')
                        (coalesce (js_get r ''retrieval_date'') JNull)
                in Awaits
                     \<lparr>collar_id = js_get matchingCollar ''collar_id'',
                      critter_id = js_get savedCritter ''critter_id'',
                      attachment_start = attachment_start,
                      data_life_start = attachment_start,
                      attachment_end = attachment_end,
                      data_life_end = attachment_start\<rparr>))))"

text \<open>How the task of a row settles once its query has answered.\<close>

definition task_outcome :: "bulk_env \<Rightarrow> string \<Rightarrow> nat \<Rightarrow> task_step \<Rightarrow> settled" where
  "task_outcome env username i st =
     (case st of
        Settles s es \<Rightarrow> s
      | Awaits body \<Rightarrow>
          (case link_query env i username body of
             Throws reason \<Rightarrow> rejected reason
           | Returns isError \<Rightarrow> fulfilled))"

fun step_errors :: "task_step \<Rightarrow> bulk_error list" where
  "step_errors (Settles s es) = es"
| "step_errors (Awaits body) = []"

fun step_calls :: "string \<Rightarrow> task_step \<Rightarrow> db_call list" where
  "step_calls username (Settles s es) = []"
| "step_calls username (Awaits body) = [LinkCollar username body]"

text \<open>
  \<open>Promise.allSettled\<close>: the tasks settle in the order \<open>sched\<close> (the indices of the tasks as
  they complete), each outcome is stored at the index of its task, and the promise
  resolves with the array once every task has settled; it never resolves (\<open>None\<close>) when a
  task never settles.
\<close>

definition allSettled :: "nat list \<Rightarrow> settled list \<Rightarrow> settled list option" where
  "allSettled sched outcomes =
     those (map (map_of (map (\<lambda>i. (i, outcomes ! i)) (filter (\<lambda>i. i < length outcomes) sched)))
                [0..<length outcomes])"

text \<open>The callback of \<open>then\<close>: one entry per task, by index.\<close>

definition animalIdentifier :: "bulk_env \<Rightarrow> jsobj \<Rightarrow> string" where
  "animalIdentifier env a =
     js_String (dateString env) (coalesce (js_get a ''animal_id'') (js_get a ''wlh_id''))"

definition attach_error :: "bulk_env \<Rightarrow> nat \<times> jsobj \<Rightarrow> string \<Rightarrow> bulk_error" where
  "attach_error env c reason =
     (case c of (rowIndex, a) \<Rightarrow>
        \<lparr>row = rowToCsv env a, rownum = rowIndex,
         error = ''Animal ID '' @ animalIdentifier env a @ '' '' @ reason\<rparr>)"

definition attach_success :: "bulk_env \<Rightarrow> nat \<times> jsobj \<Rightarrow> jsobj" where
  "attach_success env c =
     (case c of (rowIndex, a) \<Rightarrow>
        [(''sucess'', JString (animalIdentifier env a @ '' successfully attached to ''
            @ js_String (dateString env) (js_get a ''device_id'')))])"

definition record_outcome ::
  "bulk_env \<Rightarrow> (nat \<times> jsobj) \<times> settled \<Rightarrow> IBulkResponse \<Rightarrow> IBulkResponse" where
  "record_outcome env cv bulkResp =
     (case cv of (c, val) \<Rightarrow>
        (case val of
           rejected reason \<Rightarrow>
             bulkResp\<lparr>errors := errors bulkResp @ [attach_error env c reason]\<rparr>
         | fulfilled \<Rightarrow>
             bulkResp\<lparr>results := results bulkResp @ [attach_success env c]\<rparr>))"

definition link_steps ::
  "bulk_env \<Rightarrow> jsobj list \<Rightarrow> jsobj list \<Rightarrow> (nat \<times> jsobj) list \<Rightarrow> task_step list" where
  "link_steps env critterResults collarResults crittersWithCollars =
     map (link_task env critterResults collarResults) crittersWithCollars"

definition link_outcomes :: "bulk_env \<Rightarrow> string \<Rightarrow> task_step list \<Rightarrow> settled list" where
  "link_outcomes env username steps =
     map (\<lambda>(i, st). task_outcome env username i st) (enumerate 0 steps)"

definition handleCollarCritterLink ::
  "bulk_env \<Rightarrow> nat list \<Rightarrow> string \<Rightarrow> jsobj list \<Rightarrow> jsobj list \<Rightarrow> (nat \<times> jsobj) list
     \<Rightarrow> IBulkResponse \<Rightarrow> IBulkResponse option \<times> db_call list" where
  "handleCollarCritterLink env sched username critterResults collarResults crittersWithCollars
       bulkResp =
     (let steps = link_steps env critterResults collarResults crittersWithCollars;
          pushed = bulkResp\<lparr>errors := errors bulkResp @ concat (map step_errors steps)\<rparr>
      in (case allSettled sched (link_outcomes env username steps) of
            None \<Rightarrow> None
          | Some vals \<Rightarrow> Some (fold (record_outcome env) (zip crittersWithCollars vals) pushed),
          concat (map (step_calls username) steps)))"

section \<open>The orchestrator: \<open>handleBulkMetadata\<close>\<close>

definition devices_added :: "IBulkResponse \<Rightarrow> jsobj" where
  "devices_added collarResults =
     [(''success'', JString (string_of_nat (length (results collarResults))
         @ '' devices were successfully added''))]"

definition animals_added :: "IBulkResponse \<Rightarrow> jsobj" where
  "animals_added animalResults =
     [(''success'', JString (string_of_nat (length (results animalResults))
         @ '' animals were successfully added''))]"

text \<open>
  The result is what the caller receives (\<open>None\<close> when the attachment phase never
  settles), together with the writes issued to the database, in order.
\<close>

definition handleBulkMetadata ::
  "bulk_env \<Rightarrow> nat list \<Rightarrow> string \<Rightarrow> jsobj list \<Rightarrow> IBulkResponse option \<times> db_call list" where
  "handleBulkMetadata env sched username rs =
     (let animalsWithDevices =
            filter (\<lambda>(idx, r). truthy (js_get r ''device_id'')) (enumerate 0 rs);
          ret = \<lparr>errors = [], results = []\<rparr>;
          collarResults = upsertBulk env username rs device
      in if errors collarResults \<noteq> [] then (Some collarResults, [UpsertBulk username device rs])
         else
           (let ret = ret\<lparr>results := results ret @ [devices_added collarResults]\<rparr>;
                animalResults = upsertBulk env username rs animal
            in if errors animalResults \<noteq> []
               then (Some animalResults,
                     [UpsertBulk username device rs, UpsertBulk username animal rs])
               else
                 (let ret = ret\<lparr>results := results ret @ [animals_added animalResults]\<rparr>
                  in if animalsWithDevices \<noteq> [] \<and> errors collarResults = []
                          \<and> errors animalResults = []
                     then (case handleCollarCritterLink env sched username (results animalResults)
                                  (results collarResults) animalsWithDevices ret of
                             (res, calls) \<Rightarrow>
                               (res, [UpsertBulk username device rs,
                                      UpsertBulk username animal rs] @ calls))
                     else (Some ret,
                           [UpsertBulk username device rs, UpsertBulk username animal rs]))))"

text \<open>
  The entries that the callback of \<open>then\<close> adds for a list of tasks and their outcomes.
\<close>

definition rejections :: "bulk_env \<Rightarrow> ((nat \<times> jsobj) \<times> settled) list \<Rightarrow> bulk_error list" where
  "rejections env cvs =
     concat (map (\<lambda>(c, val). case val of rejected reason \<Rightarrow> [attach_error env c reason]
                                 | fulfilled \<Rightarrow> []) cvs)"


section \<open>Validation of a spreadsheet row\<close>

text \<open>\<open>CellErrorDescriptor\<close>; the field \<open>help\<close> is written \<open>help_text\<close>.\<close>

record CellErrorDescriptor =
  desc :: string
  help_text :: string
  valid_values :: "string list option"

type_synonym ParsedXLSXCellError = "(string \<times> CellErrorDescriptor) list"

record WarningInfo =
  message :: string
  prompt :: bool

record ErrorsAndWarnings =
  cell_errors :: ParsedXLSXCellError
  warnings :: "WarningInfo list"

text \<open>\<open>ParsedXLSXRowResult\<close>; its fields are \<open>row\<close>, \<open>errors\<close>, \<open>warnings\<close>, \<open>success\<close>.\<close>

record ParsedXLSXRowResult =
  parsed_row :: jsobj
  row_errors :: ParsedXLSXCellError
  row_warnings :: "WarningInfo list"
  success :: bool

record ParsedXLSXSheetResult =
  headers :: "string list"
  rows :: "ParsedXLSXRowResult list"

datatype js_error = Error string | TypeError string | RangeError string

text \<open>
  What the validation reads from the database and from modules outside these sources:
  the descriptions of a code header, the column types, the code headers, the assignment
  histories, the answer of \<open>is_new_animal\<close> (its first result row, if any), the helpers
  \<open>dateRangesOverlap\<close>, \<open>removeEmptyProps\<close> and \<open>mapXlsxHeader\<close>, the clock, and the
  parsing and printing of dates by the host.
\<close>

record import_env =
  get_code :: "string \<Rightarrow> string list"
  column_rows :: "(string \<times> string) list"
  code_header_rows :: "string list"
  get_device_assignment_history :: "jsval \<Rightarrow> jsobj list"
  get_animal_collar_assignment_history :: "string \<Rightarrow> jsval \<Rightarrow> jsobj list"
  is_new_animal :: "jsobj \<Rightarrow> jsobj option"
  dateRangesOverlap :: "jsval \<Rightarrow> jsval \<Rightarrow> jsval \<Rightarrow> jsval \<Rightarrow> bool"
  removeEmptyProps :: "jsobj \<Rightarrow> jsobj"
  mapXlsxHeader :: "string \<Rightarrow> string"
  new_Date_now :: int
  Date_parse :: "string \<Rightarrow> int option"
  toISODate :: "int \<Rightarrow> string"
  Date_toString :: "int \<Rightarrow> string"

subsection \<open>\<open>obtainColumnTypes\<close>\<close>

definition column_kind :: "string \<Rightarrow> string" where
  "column_kind data_type =
     (if data_type = ''integer'' \<or> data_type = ''double precision'' then ''number''
      else if data_type = ''timestamp without time zone''
              \<or> data_type = ''timestamp with time zone'' then ''date''
      else if data_type = ''boolean'' then ''boolean''
      else ''string'')"

definition obtainColumnTypes :: "import_env \<Rightarrow> (string \<times> string) list" where
  "obtainColumnTypes env =
     map (\<lambda>(key, data_type). (key, column_kind data_type))
       (fold (\<lambda>(column_name, data_type) acc. assign acc column_name data_type) (column_rows env) [])"

subsection \<open>\<open>checkGenericErrors\<close>\<close>

text \<open>\<open>code_descriptions.includes(v)\<close> for a list of strings.\<close>

fun array_includes :: "string list \<Rightarrow> jsval \<Rightarrow> bool" where
  "array_includes ds (JString s) = (s \<in> set ds)"
| "array_includes ds v = False"

fun instanceof_Date :: "jsval \<Rightarrow> bool" where
  "instanceof_Date (JDate t) = True"
| "instanceof_Date v = False"

fun typeof_number :: "jsval \<Rightarrow> bool" where
  "typeof_number (JNumber n) = True"
| "typeof_number v = False"

text \<open>The body of the loop over the keys of the row: the error of one cell, if any.\<close>

definition check_cell ::
  "import_env \<Rightarrow> jsobj \<Rightarrow> string list \<Rightarrow> (string \<times> string) list \<Rightarrow> string
     \<Rightarrow> CellErrorDescriptor option" where
  "check_cell env r codeFields columnTypes key =
     (if key \<in> set codeFields then
        (let code_descriptions = get_code env key
         in if \<not> array_includes code_descriptions (js_get r key)
            then Some \<lparr>desc = ''This value is not a valid code for this field.'',
                       help_text = ''This field must contain a value from the list of acceptable values.'',
                       valid_values = Some code_descriptions\<rparr>
            else None)
      else if map_of columnTypes key = Some ''date'' then
        (if \<not> instanceof_Date (js_get r key)
         then Some \<lparr>desc = ''This field must be a valid date format.'',
                    help_text = ''You have incorrectly formatted this date field. One way you can ensure correct formatting for a cell of this type is to change the Number Format dropdown in Excel.'',
                    valid_values = None\<rparr>
         else None)
      else if map_of columnTypes key = Some ''number'' then
        (if \<not> typeof_number (js_get r key)
         then Some \<lparr>desc = ''This field must be a numeric value.'',
                    help_text = ''This field is set to only accept numbers, including integers and floating points. Ensure you have not included any special characters.'',
                    valid_values = None\<rparr>
         else None)
      else if map_of columnTypes key = Some ''boolean'' then
        (if js_get r key \<noteq> JString ''TRUE'' \<and> js_get r key \<noteq> JString ''FALSE''
         then Some \<lparr>desc = ''Set this field to either TRUE or FALSE.'', help_text = [],
                    valid_values = None\<rparr>
         else None)
      else None)"

definition checkGenericErrors ::
  "import_env \<Rightarrow> jsobj \<Rightarrow> string list \<Rightarrow> (string \<times> string) list \<Rightarrow> ParsedXLSXCellError" where
  "checkGenericErrors env r codeFields columnTypes =
     fold (\<lambda>key errs. case check_cell env r codeFields columnTypes key of
                         None \<Rightarrow> errs
                       | Some d \<Rightarrow> assign errs key d)
          (Object_keys r) []"

subsection \<open>The cross-row checks\<close>

definition requireFields :: "jsobj \<Rightarrow> bool" where
  "requireFields r =
     (if truthy (js_get r ''species'') \<and> truthy (js_get r ''device_id'') then True else False)"

definition device_assigned :: CellErrorDescriptor where
  "device_assigned =
     \<lparr>desc = ''This device is already assigned to an animal. Unlink this device and try again.'',
      help_text = ''This device is already assigned to an animal. Unlink this device and try again.'',
      valid_values = None\<rparr>"

definition previous_deployments :: "import_env \<Rightarrow> jsobj \<Rightarrow> WarningInfo" where
  "previous_deployments env r =
     \<lparr>message = ''There are previous deployments for device ID ''
                 @ js_String (Date_toString env) (js_get r ''device_id''),
      prompt = False\<rparr>"

definition multiple_devices :: WarningInfo where
  "multiple_devices =
     \<lparr>message = ''You will be attaching multiple devices to this animal over the same time span.'',
      prompt = True\<rparr>"

definition row_start :: "import_env \<Rightarrow> jsobj \<Rightarrow> jsval" where
  "row_start env r = coalesce (js_get r ''capture_date'') (JDate (new_Date_now env))"

definition row_end :: "jsobj \<Rightarrow> jsval" where
  "row_end r = coalesce (js_get r ''retrieval_date'') (coalesce (js_get r ''mortality_date'') JNull)"

text \<open>Whether an assignment of the history overlaps the interval of the row.\<close>

definition link_overlaps :: "import_env \<Rightarrow> jsobj \<Rightarrow> jsobj \<Rightarrow> bool" where
  "link_overlaps env r link =
     dateRangesOverlap env (js_get link ''attachment_start'') (js_get link ''attachment_end'')
       (row_start env r) (row_end r)"

definition verifyAssignment ::
  "import_env \<Rightarrow> jsobj \<Rightarrow> string \<Rightarrow> ErrorsAndWarnings \<times> db_call list" where
  "verifyAssignment env r user =
     (let deviceLinks = get_device_assignment_history env (js_get r ''device_id'');
          linkData =
            (if list_ex (link_overlaps env r) deviceLinks
             then \<lparr>cell_errors = [(''device_id'', device_assigned)], warnings = []\<rparr>
             else if length deviceLinks > 0
             then \<lparr>cell_errors = [], warnings = [previous_deployments env r]\<rparr>
             else \<lparr>cell_errors = [], warnings = []\<rparr>)
      in if truthy (js_get r ''critter_id'') then
           (let animalLinks = get_animal_collar_assignment_history env user (js_get r ''critter_id'')
            in (if list_ex (link_overlaps env r) animalLinks
                then linkData\<lparr>warnings := warnings linkData @ [multiple_devices]\<rparr>
                else linkData,
                [DeviceAssignmentHistory (js_get r ''device_id''),
                 AnimalAssignmentHistory user (js_get r ''critter_id'')]))
         else (linkData, [DeviceAssignmentHistory (js_get r ''device_id'')]))"

definition missing_data :: CellErrorDescriptor where
  "missing_data =
     \<lparr>desc = ''You have not provided sufficient data.'',
      help_text = ''You have not provided sufficient data.'', valid_values = None\<rparr>"

definition new_animal :: WarningInfo where
  "new_animal = \<lparr>message = ''This row will create a new animal.'', prompt = True\<rparr>"

text \<open>
  \<open>unqanim['is_new']\<close> throws a \<open>TypeError\<close> when the query returned no row.
\<close>

definition checkAnimalDeviceErrorsAndWarns ::
  "import_env \<Rightarrow> ParsedXLSXRowResult \<Rightarrow> string
     \<Rightarrow> js_error + ErrorsAndWarnings \<times> db_call list" where
  "checkAnimalDeviceErrorsAndWarns env rowres user =
     (if requireFields (parsed_row rowres) = False
      then Inr (\<lparr>cell_errors = [(''missing_data'', missing_data)], warnings = []\<rparr>, [])
      else
        (case verifyAssignment env (parsed_row rowres) user of
           (ret, calls) \<Rightarrow>
             (case is_new_animal env (parsed_row rowres) of
                None \<Rightarrow> Inl (TypeError ''Cannot read properties of undefined (reading 'is_new')'')
              | Some unqanim \<Rightarrow>
                  Inr (if truthy (js_get unqanim ''is_new'')
                       then ret\<lparr>warnings := warnings ret @ [new_animal]\<rparr>
                       else ret,
                       calls @ [IsNewAnimal (parsed_row rowres)]))))"

section \<open>Validation of a workbook: \<open>parseXlsx\<close>\<close>

record SheetRequirements =
  sheetName :: string
  requiredHeaders :: "string list"

definition metadataRequiredHeaders :: "string list" where
  "metadataRequiredHeaders =
     [''Wildlife Health ID'', ''Animal ID'', ''Species'', ''Population Unit'', ''Region'',
      ''Sex'', ''Animal Status'', ''Capture Date'', ''Capture Latitude'',
      ''Capture Longitude'', ''Capture UTM Easting'', ''Capture UTM Northing'',
      ''Capture UTM Zone'', ''Capture Comment'', ''Ear Tag Right ID'',
      ''Ear Tag Right Colour'', ''Ear Tag Left ID'', ''Ear Tag Left Colour'',
      ''Compulsory Inspection ID'', ''COORS ID'', ''Leg Band ID'', ''Microchip ID'',
      ''Nickname'', ''Pit Tag ID'', ''RAPP Ear Tag ID'', ''Recapture ID'', ''Wing Band ID'',
      ''HWCN ID'', ''Telemetry Device ID'', ''Device Deployment Status'', ''Device Make'',
      ''Device Model'', ''Device Type'', ''Frequency'', ''Frequency Unit'', ''Fix Interval'',
      ''Fix Interval Rate'', ''Satellite Network'', ''Vaginal Implant Transmitter ID'',
      ''Camera Device ID'', ''Dropoff Device ID'', ''Dropoff Frequency'',
      ''Dropoff Frequency Unit'', ''Malfunction Date'', ''Malfunction Comment'',
      ''Device Malfunction Type'', ''Device Retrieval Date'', ''Device Retrieval Comment'',
      ''Animal Mortality Date'', ''Suspected Mortality Cause'', ''Mortality Comment'']"

definition telemetryRequiredHeaders :: "string list" where
  "telemetryRequiredHeaders =
     [''Device ID'', ''Latitude'', ''Longitude'', ''Acquisition Date'', ''Elevation'',
      ''Temperature'', ''Satellite'', ''Dilution'', ''Main Voltage'', ''Backup Voltage'']"

definition deviceMetadataSheetName :: string where
  "deviceMetadataSheetName = ''Device Metadata''"

definition telemetrySheetName :: string where
  "telemetrySheetName = ''Telemetry''"

definition extraCodeFields :: "string list" where
  "extraCodeFields = [''species'']"

definition sheetRequirements :: "SheetRequirements list" where
  "sheetRequirements =
     [\<lparr>sheetName = deviceMetadataSheetName, requiredHeaders = metadataRequiredHeaders\<rparr>,
      \<lparr>sheetName = telemetrySheetName, requiredHeaders = telemetryRequiredHeaders\<rparr>]"

text \<open>
  A worksheet as the code reads it: its name, the defined values of its first row, the
  number of its last row (\<open>0\<close> when it has none), and the \<open>values\<close> array of each row
  from row 2 on (the array starts with an unused entry at index 0).
\<close>

record worksheet =
  sheet_name :: string
  header_values :: "string list"
  lastRow_number :: nat
  data_rows :: "jsval list list"

definition getRow_values :: "worksheet \<Rightarrow> nat \<Rightarrow> jsval list" where
  "getRow_values sheet i =
     (if 2 \<le> i \<and> i - 2 < length (data_rows sheet) then data_rows sheet ! (i - 2) else [])"

text \<open>The check of the headers against the template: \<open>headers[idx] != value\<close> throws.\<close>

definition headers_match :: "string list \<Rightarrow> string list \<Rightarrow> bool" where
  "headers_match hs required =
     list_all (\<lambda>(idx, v). idx < length hs \<and> hs ! idx = v) (enumerate 0 required)"

text \<open>
  \<open>new Date(v)\<close>: the time value of the date, or \<open>None\<close> for an invalid date, of which
  \<open>toISOString\<close> throws a \<open>RangeError\<close>.
\<close>

fun new_Date :: "import_env \<Rightarrow> jsval \<Rightarrow> int option" where
  "new_Date env JUndefined = None"
| "new_Date env JNull = Some 0"
| "new_Date env (JBool b) = Some (if b then 1 else 0)"
| "new_Date env (JNumber n) = (if \<bar>n\<bar> \<le> 8640000000000000 then Some n else None)"
| "new_Date env (JString s) = Date_parse env s"
| "new_Date env (JDate t) = Some t"

text \<open>The loop that rewrites the cells of the date columns as \<open>YYYY-MM-DD\<close>.\<close>

fun convert_dates ::
  "import_env \<Rightarrow> (string \<times> string) list \<Rightarrow> string list \<Rightarrow> jsobj \<Rightarrow> js_error + jsobj" where
  "convert_dates env columnTypes [] r = Inr r"
| "convert_dates env columnTypes (key # ks) r =
     (if map_of columnTypes key = Some ''date'' then
        (case new_Date env (js_get r key) of
           None \<Rightarrow> Inl (RangeError ''Invalid time value'')
         | Some t \<Rightarrow> convert_dates env columnTypes ks (assign r key (JString (toISODate env t))))
      else convert_dates env columnTypes ks r)"

definition rowWithHeader :: "string list \<Rightarrow> jsval list \<Rightarrow> jsobj" where
  "rowWithHeader hs vals =
     fold (\<lambda>(idx, key) acc.
             assign acc key
               (if length vals \<noteq> 0 \<and> idx + 1 < length vals then vals ! (idx + 1)
                else JUndefined))
          (enumerate 0 hs) []"

definition set_success :: "ParsedXLSXRowResult \<Rightarrow> ParsedXLSXRowResult" where
  "set_success rowObj = rowObj\<lparr>success := (length (Object_keys (row_errors rowObj)) = 0)\<rparr>"

text \<open>The body of the loop over the rows of a sheet.\<close>

definition parse_row ::
  "import_env \<Rightarrow> string list \<Rightarrow> worksheet \<Rightarrow> string \<Rightarrow> string list \<Rightarrow> jsval list
     \<Rightarrow> js_error + ParsedXLSXRowResult" where
  "parse_row env code_header_names sheet user hs vals =
     (let columnTypes = obtainColumnTypes env;
          crow = removeEmptyProps env (rowWithHeader hs vals);
          errs = checkGenericErrors env crow code_header_names columnTypes
      in case convert_dates env columnTypes (Object_keys crow) crow of
           Inl e \<Rightarrow> Inl e
         | Inr r \<Rightarrow>
             (let rowObj = \<lparr>parsed_row = r, row_errors = errs, row_warnings = [],
                            success = False\<rparr>
              in if sheet_name sheet = deviceMetadataSheetName then
                   (case checkAnimalDeviceErrorsAndWarns env rowObj user of
                      Inl e \<Rightarrow> Inl e
                    | Inr (errswrns, calls) \<Rightarrow>
                        Inr (set_success
                               (rowObj\<lparr>row_errors := spread (row_errors rowObj) (cell_errors errswrns),
                                       row_warnings := row_warnings rowObj @ warnings errswrns\<rparr>)))
                 else Inr (set_success rowObj)))"

fun parse_rows ::
  "import_env \<Rightarrow> string list \<Rightarrow> worksheet \<Rightarrow> string \<Rightarrow> string list \<Rightarrow> nat list
     \<Rightarrow> ParsedXLSXRowResult list \<Rightarrow> js_error + ParsedXLSXRowResult list" where
  "parse_rows env code_header_names sheet user hs [] verifiedRowObj = Inr verifiedRowObj"
| "parse_rows env code_header_names sheet user hs (i # is) verifiedRowObj =
     (case parse_row env code_header_names sheet user hs (getRow_values sheet i) of
        Inl e \<Rightarrow> Inl e
      | Inr rowObj \<Rightarrow>
          parse_rows env code_header_names sheet user hs is (verifiedRowObj @ [rowObj]))"

text \<open>The body of the loop over the sheet requirements.\<close>

definition parse_sheet ::
  "import_env \<Rightarrow> string list \<Rightarrow> worksheet list \<Rightarrow> string \<Rightarrow> SheetRequirements
     \<Rightarrow> js_error + ParsedXLSXSheetResult" where
  "parse_sheet env code_header_names workbook user req =
     (case find (\<lambda>sh. sheet_name sh = sheetName req) workbook of
        None \<Rightarrow> Inl (TypeError ''Cannot read properties of undefined (reading 'getRow')'')
      | Some sheet \<Rightarrow>
          if \<not> headers_match (header_values sheet) (requiredHeaders req)
          then Inl (Error ''Headers from this file do not match template headers.'')
          else if lastRow_number sheet = 0
          then Inl (Error ''There was somehow no last row within this worksheet, aborting.'')
          else
            (let hs = map (mapXlsxHeader env) (header_values sheet)
             in case parse_rows env code_header_names sheet user hs
                       [2..<lastRow_number sheet + 1] [] of
                  Inl e \<Rightarrow> Inl e
                | Inr verifiedRowObj \<Rightarrow> Inr \<lparr>headers = hs, rows = verifiedRowObj\<rparr>))"

fun parse_sheets ::
  "import_env \<Rightarrow> string list \<Rightarrow> worksheet list \<Rightarrow> string \<Rightarrow> SheetRequirements list
     \<Rightarrow> ParsedXLSXSheetResult list \<Rightarrow> ParsedXLSXSheetResult list \<times> js_error option" where
  "parse_sheets env code_header_names workbook user [] sheetResults = (sheetResults, None)"
| "parse_sheets env code_header_names workbook user (req # reqs) sheetResults =
     (case parse_sheet env code_header_names workbook user req of
        Inl e \<Rightarrow> (sheetResults, Some e)
      | Inr res \<Rightarrow> parse_sheets env code_header_names workbook user reqs (sheetResults @ [res]))"

text \<open>
  \<open>parseXlsx\<close>: the sheet results handed to the callback, and the error that the
  \<open>catch\<close> block logged, if any.
\<close>

definition parseXlsx ::
  "import_env \<Rightarrow> worksheet list \<Rightarrow> string \<Rightarrow> ParsedXLSXSheetResult list \<times> js_error option" where
  "parseXlsx env workbook user =
     parse_sheets env (code_header_rows env @ extraCodeFields) workbook user sheetRequirements []"

section \<open>Helpers defined outside these sources\<close>

text \<open>
  Modelled from the spec: \<open>dateRangesOverlap\<close> is defined outside these sources. Intervals
  A and B overlap iff \<open>A.start < (B.end or +inf)\<close> and \<open>B.start < (A.end or +inf)\<close>; an end
  that is \<open>null\<close> or missing is open. A bound is a \<open>Date\<close>, or a text that the host parses
  as a date; a bound without a time value is before nothing.
\<close>

definition time_of :: "(string \<Rightarrow> int option) \<Rightarrow> jsval \<Rightarrow> int option" where
  "time_of parse v = (case v of JDate t \<Rightarrow> Some t | JString s \<Rightarrow> parse s | _ \<Rightarrow> None)"

definition starts_before_end :: "(string \<Rightarrow> int option) \<Rightarrow> jsval \<Rightarrow> jsval \<Rightarrow> bool" where
  "starts_before_end parse s e =
     (case time_of parse s of
        None \<Rightarrow> False
      | Some ts \<Rightarrow> if nullish e then True
                  else (case time_of parse e of None \<Rightarrow> False | Some te \<Rightarrow> ts < te))"

definition spec_dateRangesOverlap ::
  "(string \<Rightarrow> int option) \<Rightarrow> jsval \<Rightarrow> jsval \<Rightarrow> jsval \<Rightarrow> jsval \<Rightarrow> bool" where
  "spec_dateRangesOverlap parse startA endA startB endB =
     (starts_before_end parse startA endB \<and> starts_before_end parse startB endA)"

text \<open>
  Modelled from the spec: \<open>removeEmptyProps\<close> is defined outside these sources. Absent
  and empty fields are dropped before checking.
\<close>

definition spec_removeEmptyProps :: "jsobj \<Rightarrow> jsobj" where
  "spec_removeEmptyProps obj =
     filter (\<lambda>(k, v). v \<noteq> JUndefined \<and> v \<noteq> JNull \<and> v \<noteq> JString []) obj"

section \<open>Scenarios\<close>

text \<open>
  Scenario D: three rows that each carry a device; the device upsert reports an error for
  the row of index 2.
\<close>

definition scenarioD_rows :: "jsobj list" where
  "scenarioD_rows =
     [[(''device_id'', JNumber 101), (''animal_id'', JString ''A1'')],
      [(''device_id'', JNumber 102), (''animal_id'', JString ''A2'')],
      [(''device_id'', JNumber 103), (''animal_id'', JString ''A3'')]]"

definition scenarioD_env :: bulk_env where
  "scenarioD_env =
     \<lparr>upsertBulk = (\<lambda>u rs e. case e of
          device \<Rightarrow> \<lparr>errors = [\<lparr>row = ''103,A3'', rownum = 2, error = ''device rejected''\<rparr>],
                     results = []\<rparr>
        | animal \<Rightarrow> \<lparr>errors = [], results = rs\<rparr>),
      link_query = (\<lambda>i u body. Returns False),
      rowToCsv = (\<lambda>r. []),
      dateString = (\<lambda>t. []),
      dayjs_now = 0\<rparr>"

text \<open>The same batch when the devices are stored and the animal upsert fails on row 0.\<close>

definition animal_failure_env :: bulk_env where
  "animal_failure_env =
     \<lparr>upsertBulk = (\<lambda>u rs e. case e of
          device \<Rightarrow> \<lparr>errors = [], results = rs\<rparr>
        | animal \<Rightarrow> \<lparr>errors = [\<lparr>row = ''101,A1'', rownum = 0, error = ''animal rejected''\<rparr>],
                     results = []\<rparr>),
      link_query = (\<lambda>i u body. Returns False),
      rowToCsv = (\<lambda>r. []),
      dateString = (\<lambda>t. []),
      dayjs_now = 0\<rparr>"

text \<open>
  Scenario E: two rows reach the attachment phase; the link query of the first throws,
  the link query of the second succeeds. The device id of the second row is the text
  read from a CSV file.
\<close>

definition scenarioE_rows :: "jsobj list" where
  "scenarioE_rows =
     [[(''animal_id'', JString ''A1''), (''device_id'', JNumber 101)],
      [(''animal_id'', JString ''A2''), (''device_id'', JString ''102'')]]"

definition scenarioE_collars :: "jsobj list" where
  "scenarioE_collars =
     [[(''collar_id'', JString ''k1''), (''device_id'', JNumber 101)],
      [(''collar_id'', JString ''k2''), (''device_id'', JNumber 102)]]"

definition scenarioE_critters :: "jsobj list" where
  "scenarioE_critters =
     [[(''critter_id'', JString ''c1''), (''animal_id'', JString ''A1'')],
      [(''critter_id'', JString ''c2''), (''animal_id'', JString ''A2'')]]"

definition scenarioE_env :: bulk_env where
  "scenarioE_env =
     \<lparr>upsertBulk = (\<lambda>u rs e. case e of
          device \<Rightarrow> \<lparr>errors = [], results = scenarioE_collars\<rparr>
        | animal \<Rightarrow> \<lparr>errors = [], results = scenarioE_critters\<rparr>),
      link_query = (\<lambda>i u body. if critter_id body = JString ''c1''
                                 then Throws ''Error: link refused'' else Returns False),
      rowToCsv = (\<lambda>r. js_String (\<lambda>t. []) (js_get r ''animal_id'')),
      dateString = (\<lambda>t. []),
      dayjs_now = 0\<rparr>"


text \<open>
  A row identified by its wildlife health id alone, and the animal the upsert returns for
  it (the database returns \<open>null\<close> for its missing animal id).
\<close>

definition health_id_row :: jsobj where
  "health_id_row = [(''wlh_id'', JString ''18-1001''), (''device_id'', JNumber 101)]"

definition health_id_critters :: "jsobj list" where
  "health_id_critters =
     [[(''critter_id'', JString ''c1''), (''animal_id'', JNull), (''wlh_id'', JString ''18-1001'')]]"

text \<open>
  A workbook with three rows of device metadata and an empty telemetry sheet. Device 101
  has one earlier assignment, from 2020-01-01 to 2020-06-01. The first row attaches device
  101 from 2020-03-01 on (scenario B), the second row names a species that is not in the
  code list (scenario C), the third row is valid.
\<close>

definition scenario_Date_parse :: "string \<Rightarrow> int option" where
  "scenario_Date_parse s =
     (if s = ''2020-03-01'' then Some 1583020800000
      else if s = ''2021-05-05'' then Some 1620172800000 else None)"

definition scenario_mapXlsxHeader :: "string \<Rightarrow> string" where
  "scenario_mapXlsxHeader h =
     (case map_of [(''Animal ID'', ''animal_id''), (''Species'', ''species''),
                   (''Capture Date'', ''capture_date''),
                   (''Telemetry Device ID'', ''device_id'')] h of
        Some key \<Rightarrow> key | None \<Rightarrow> h)"

definition scenario_env :: import_env where
  "scenario_env =
     \<lparr>get_code = (\<lambda>key. if key = ''species'' then [''Moose'', ''Grizzly Bear'', ''Grey Wolf'']
                        else []),
      column_rows = [(''capture_date'', ''timestamp without time zone''),
                     (''device_id'', ''integer''), (''species'', ''character varying''),
                     (''animal_id'', ''character varying'')],
      code_header_rows = [''sex'', ''region''],
      get_device_assignment_history =
        (\<lambda>d. if d = JNumber 101
             then [[(''attachment_start'', JDate 1577836800000),
                    (''attachment_end'', JDate 1590969600000)]]
             else []),
      get_animal_collar_assignment_history = (\<lambda>u c. []),
      is_new_animal = (\<lambda>r. Some [(''is_new'', JBool True)]),
      dateRangesOverlap = spec_dateRangesOverlap scenario_Date_parse,
      removeEmptyProps = spec_removeEmptyProps,
      mapXlsxHeader = scenario_mapXlsxHeader,
      new_Date_now = 1600000000000,
      Date_parse = scenario_Date_parse,
      toISODate = (\<lambda>t. if t = 1583020800000 then ''2020-03-01'' else ''2021-05-05''),
      Date_toString = (\<lambda>t. [])\<rparr>"

definition cells :: "jsval \<Rightarrow> jsval \<Rightarrow> jsval \<Rightarrow> jsval \<Rightarrow> jsval list" where
  "cells animal_id species capture_date device_id =
     [JUndefined, JUndefined, animal_id, species] @ replicate 4 JUndefined @ [capture_date]
     @ replicate 20 JUndefined @ [device_id]"

definition scenario_workbook :: "worksheet list" where
  "scenario_workbook =
     [\<lparr>sheet_name = ''Device Metadata'', header_values = metadataRequiredHeaders,
       lastRow_number = 4,
       data_rows = [cells (JString ''A1'') (JString ''Moose'') (JDate 1583020800000) (JNumber 101),
                    cells (JString ''A2'') (JString ''Caribou'') (JDate 1620172800000) (JNumber 102),
                    cells (JString ''A3'') (JString ''Moose'') (JDate 1620172800000) (JNumber 103)]\<rparr>,
      \<lparr>sheet_name = ''Telemetry'', header_values = telemetryRequiredHeaders,
       lastRow_number = 1, data_rows = []\<rparr>]"


definition later_row :: jsobj where
  "later_row =
     [(''species'', JString ''Moose''), (''device_id'', JNumber 101),
      (''capture_date'', JDate 1620172800000)]"

text \<open>A known animal that wears a collar since 2020-01-01, and a row that names it.\<close>

definition collared_env :: import_env where
  "collared_env =
     scenario_env\<lparr>get_animal_collar_assignment_history :=
       (\<lambda>u c. [[(''attachment_start'', JDate 1577836800000), (''attachment_end'', JNull)]])\<rparr>"

definition collared_row :: jsobj where
  "collared_row =
     [(''species'', JString ''Moose''), (''device_id'', JNumber 103),
      (''critter_id'', JString ''c7''), (''capture_date'', JDate 1583020800000)]"

text \<open>
  A workbook whose second row of data holds a text that is no date in the column of the
  capture date.
\<close>

definition malformed_workbook :: "worksheet list" where
  "malformed_workbook =
     [\<lparr>sheet_name = ''Device Metadata'', header_values = metadataRequiredHeaders,
       lastRow_number = 4,
       data_rows = [cells (JString ''A3'') (JString ''Moose'') (JDate 1620172800000) (JNumber 103),
                    cells (JString ''A4'') (JString ''Moose'') (JString ''next week'') (JNumber 104),
                    cells (JString ''A5'') (JString ''Moose'') (JDate 1620172800000) (JNumber 105)]\<rparr>,
      \<lparr>sheet_name = ''Telemetry'', header_values = telemetryRequiredHeaders,
       lastRow_number = 1, data_rows = []\<rparr>]"

text \<open>
  Scenario E when the link query of the first row fails the way \<open>query\<close> reports a
  failure: it returns, with \<open>isError\<close> set.
\<close>

definition flagged_env :: bulk_env where
  "flagged_env =
     scenarioE_env\<lparr>link_query := (\<lambda>i u body. if critter_id body = JString ''c1''
                                          then Returns True else Returns False)\<rparr>"

text \<open>The upserts of the row identified by its health id, and a link query that succeeds.\<close>

definition health_id_env :: bulk_env where
  "health_id_env =
     \<lparr>upsertBulk = (\<lambda>u rs e. case e of
          device \<Rightarrow> \<lparr>errors = [], results = [scenarioE_collars ! 0]\<rparr>
        | animal \<Rightarrow> \<lparr>errors = [], results = health_id_critters\<rparr>),
      link_query = (\<lambda>i u body. Returns False),
      rowToCsv = (\<lambda>r. js_String (\<lambda>t. []) (js_get r ''wlh_id'')),
      dateString = (\<lambda>t. []),
      dayjs_now = 0\<rparr>"



text \<open>
  An animal that the identity match finds existing and that wears a collar since
  2020-01-01; the sheet has no column for a critter id.
\<close>

definition known_animal_env :: import_env where
  "known_animal_env = collared_env\<lparr>is_new_animal := (\<lambda>r. Some [(''is_new'', JBool False)])\<rparr>"

section \<open>Properties of the orchestrator\<close>

text \<open>
  Claim C1. When the device upsert returns at least one row error, the orchestrator
  returns exactly the device result, and the only write it has issued is the device
  upsert: the animal upsert and every link call are skipped. When the device upsert is
  free of errors and the animal upsert returns at least one row error, the orchestrator
  returns the animal result, and it has issued the two upserts and no link call.
\<close>

theorem handleBulkMetadata_fail_fast:
  "(errors (upsertBulk env u rs device) \<noteq> [] \<longrightarrow>
      handleBulkMetadata env sched u rs
        = (Some (upsertBulk env u rs device), [UpsertBulk u device rs]))
   \<and> (errors (upsertBulk env u rs device) = [] \<and> errors (upsertBulk env u rs animal) \<noteq> [] \<longrightarrow>
      handleBulkMetadata env sched u rs
        = (Some (upsertBulk env u rs animal), [UpsertBulk u device rs, UpsertBulk u animal rs]))"
  by (simp add: handleBulkMetadata_def Let_def)

theorem handleBulkMetadata_fail_fast_witness:
  "errors (upsertBulk scenarioD_env ''u'' scenarioD_rows device) \<noteq> []
   \<and> handleBulkMetadata scenarioD_env [] ''u'' scenarioD_rows
       = (Some \<lparr>errors = [\<lparr>row = ''103,A3'', rownum = 2, error = ''device rejected''\<rparr>],
                 results = []\<rparr>,
          [UpsertBulk ''u'' device scenarioD_rows])
   \<and> errors (upsertBulk animal_failure_env ''u'' scenarioD_rows device) = []
   \<and> errors (upsertBulk animal_failure_env ''u'' scenarioD_rows animal) \<noteq> []
   \<and> handleBulkMetadata animal_failure_env [] ''u'' scenarioD_rows
       = (Some \<lparr>errors = [\<lparr>row = ''101,A1'', rownum = 0, error = ''animal rejected''\<rparr>],
                 results = []\<rparr>,
          [UpsertBulk ''u'' device scenarioD_rows, UpsertBulk ''u'' animal scenarioD_rows])"
  using handleBulkMetadata_fail_fast [of scenarioD_env "''u''" scenarioD_rows "[]"]
        handleBulkMetadata_fail_fast [of animal_failure_env "''u''" scenarioD_rows "[]"]
  by (simp add: scenarioD_env_def animal_failure_env_def)

subsection \<open>The attachment phase\<close>











lemma set_rejections:
  "set (rejections env cvs) = {attach_error env c reason | c reason. (c, rejected reason) \<in> set cvs}"
  by (induction cvs) (auto simp: rejections_def split: settled.splits)


text \<open>
  Claim C2 fails on the code. \<open>query\<close> reports a failure by returning with \<open>isError\<close>
  set, and the task of a row returns what \<open>query\<close> returned without reading the flag. In
  scenario E, when the link query of row A fails in that way, the returned response has
  no error entry and reports both rows as attached, in whatever order the two tasks
  complete. Only a query that throws is recorded against its row: then the errors hold the
  entry of A, and the results the two summaries of the upsert phases and the entry of B.
\<close>

theorem flagged_link_failure_reported_attached:
  "link_query flagged_env 0 ''u''
     \<lparr>collar_id = JString ''k1'', critter_id = JString ''c1'',
      attachment_start = JDate 0, data_life_start = JDate 0, attachment_end = JNull,
      data_life_end = JDate 0\<rparr> = Returns True
   \<and> handleBulkMetadata flagged_env [1, 0] ''u'' scenarioE_rows
       = (Some \<lparr>errors = [],
                 results = [[(''success'', JString ''2 devices were successfully added'')],
                            [(''success'', JString ''2 animals were successfully added'')],
                            [(''sucess'', JString ''A1 successfully attached to 101'')],
                            [(''sucess'', JString ''A2 successfully attached to 102'')]]\<rparr>,
          [UpsertBulk ''u'' device scenarioE_rows, UpsertBulk ''u'' animal scenarioE_rows,
           LinkCollar ''u''
             \<lparr>collar_id = JString ''k1'', critter_id = JString ''c1'',
              attachment_start = JDate 0, data_life_start = JDate 0, attachment_end = JNull,
              data_life_end = JDate 0\<rparr>,
           LinkCollar ''u''
             \<lparr>collar_id = JString ''k2'', critter_id = JString ''c2'',
              attachment_start = JDate 0, data_life_start = JDate 0, attachment_end = JNull,
              data_life_end = JDate 0\<rparr>])
   \<and> fst (handleBulkMetadata scenarioE_env [1, 0] ''u'' scenarioE_rows)
       = Some \<lparr>errors = [\<lparr>row = ''A1'', rownum = 0,
                            error = ''Animal ID A1 Error: link refused''\<rparr>],
                results = [[(''success'', JString ''2 devices were successfully added'')],
                           [(''success'', JString ''2 animals were successfully added'')],
                           [(''sucess'', JString ''A2 successfully attached to 102'')]]\<rparr>"
  by code_simp

text \<open>
  Claim C7 fails on the code. The animal of a row is looked up by \<open>animal_id\<close> alone. A
  row that carries a device id and is identified by its health id finds no animal, although
  the animal with that health id and the collar with that device id were upserted: no link
  query is issued, no error is recorded, and the row is reported as attached.
\<close>

theorem health_id_row_reported_attached_without_link:
  "truthy (js_get health_id_row ''device_id'')
   \<and> results (upsertBulk health_id_env ''u'' [health_id_row] animal) = health_id_critters
   \<and> js_get (health_id_critters ! 0) ''wlh_id'' = js_get health_id_row ''wlh_id''
   \<and> js_get (health_id_critters ! 0) ''animal_id'' = JNull
   \<and> js_get health_id_row ''animal_id'' = JUndefined
   \<and> handleBulkMetadata health_id_env [0] ''u'' [health_id_row]
       = (Some \<lparr>errors = [],
                 results = [[(''success'', JString ''1 devices were successfully added'')],
                            [(''success'', JString ''1 animals were successfully added'')],
                            [(''sucess'', JString ''18-1001 successfully attached to 101'')]]\<rparr>,
          [UpsertBulk ''u'' device [health_id_row], UpsertBulk ''u'' animal [health_id_row]])"
  by code_simp





section \<open>Properties of the validation\<close>

lemma map_of_assign: "map_of (assign al k v) = (map_of al)(k \<mapsto> v)"
  by (simp add: assign_def update_conv')

lemma map_of_fold_check:
  "map_of (fold (\<lambda>key errs. case f key of None \<Rightarrow> errs | Some d \<Rightarrow> assign errs key d) ks acc) k
     = (if k \<in> set ks then (case f k of None \<Rightarrow> map_of acc k | Some d \<Rightarrow> Some d)
        else map_of acc k)"
proof (induction ks arbitrary: acc)
  case Nil
  show ?case by simp
next
  case (Cons key ks)
  show ?case
    by (cases "f key") (auto simp: Cons.IH map_of_assign split: option.splits)
qed

lemma map_of_checkGenericErrors:
  "map_of (checkGenericErrors env r codeFields columnTypes) key
     = (if key \<in> set (Object_keys r) then check_cell env r codeFields columnTypes key else None)"
  by (simp add: checkGenericErrors_def map_of_fold_check split: option.splits)

text \<open>
  Claim C9. For a key of the row that is a code field, \<open>checkGenericErrors\<close> records an
  error under that key exactly when the value of the cell is no member of the code
  descriptions fetched for the key, and the \<open>valid_values\<close> of the error are the whole
  list of descriptions.
\<close>

theorem invalid_code_reported:
  assumes "key \<in> set (Object_keys r)" and "key \<in> set codeFields"
  shows "map_of (checkGenericErrors env r codeFields columnTypes) key
           = (if array_includes (get_code env key) (js_get r key) then None
              else Some \<lparr>desc = ''This value is not a valid code for this field.'',
                         help_text = ''This field must contain a value from the list of acceptable values.'',
                         valid_values = Some (get_code env key)\<rparr>)"
  using assms by (simp add: map_of_checkGenericErrors check_cell_def Let_def)

theorem invalid_code_reported_witness:
  "''species'' \<in> set (Object_keys [(''species'', JString ''Caribou'')])
   \<and> ''species'' \<in> set (code_header_rows scenario_env @ extraCodeFields)
   \<and> \<not> array_includes (get_code scenario_env ''species'') (JString ''Caribou'')
   \<and> map_of (checkGenericErrors scenario_env [(''species'', JString ''Caribou'')]
               (code_header_rows scenario_env @ extraCodeFields) (obtainColumnTypes scenario_env))
        ''species''
       = Some \<lparr>desc = ''This value is not a valid code for this field.'',
                help_text = ''This field must contain a value from the list of acceptable values.'',
                valid_values = Some [''Moose'', ''Grizzly Bear'', ''Grey Wolf'']\<rparr>"
proof -
  have k: "''species'' \<in> set (Object_keys [(''species'', JString ''Caribou'')])"
    by (simp add: Object_keys_def)
  have c: "''species'' \<in> set (code_header_rows scenario_env @ extraCodeFields)"
    by (simp add: extraCodeFields_def)
  have g: "get_code scenario_env ''species'' = [''Moose'', ''Grizzly Bear'', ''Grey Wolf'']"
    by (simp add: scenario_env_def)
  from invalid_code_reported [OF k c, of scenario_env "obtainColumnTypes scenario_env"] k c
  show ?thesis
    by (simp add: g js_get_def)
qed

lemma requireFields_absent:
  assumes "''species'' \<notin> set (Object_keys r) \<or> ''device_id'' \<notin> set (Object_keys r)"
  shows "requireFields r = False"
proof -
  have "js_get r k = JUndefined" if "k \<notin> set (Object_keys r)" for k
  proof -
    from that have "map_of r k = None"
      by (simp add: Object_keys_def map_of_eq_None_iff)
    then show ?thesis by (simp add: js_get_def)
  qed
  with assms show ?thesis
    by (auto simp: requireFields_def)
qed

lemma assign_not_Nil: "assign al k v \<noteq> []"
  by (cases al) (simp_all add: assign_def)

lemma spread_single: "spread a [(k, v)] = assign a k v"
  by (simp add: spread_def)

text \<open>
  Claim C3, as amended. For a row that lacks the species or the device id, the cross-row
  validation returns exactly one error, under the key \<open>missing_data\<close>, and no warning, and
  issues none of the lookups of the device history, the animal history and the uniqueness
  of the animal. The error mapping of the parsed row is the mapping of its field errors
  with that one entry added, and its \<open>success\<close> is false; a row that lacks both fields and
  has no field error has exactly one error.
\<close>

theorem missing_required_fields:
  "(''species'' \<notin> set (Object_keys (parsed_row rowres))
      \<or> ''device_id'' \<notin> set (Object_keys (parsed_row rowres))
    \<longrightarrow> checkAnimalDeviceErrorsAndWarns env rowres user
          = Inr (\<lparr>cell_errors = [(''missing_data'', missing_data)], warnings = []\<rparr>, []))
   \<and> (convert_dates env (obtainColumnTypes env)
         (Object_keys (removeEmptyProps env (rowWithHeader hs vals)))
         (removeEmptyProps env (rowWithHeader hs vals)) = Inr r
      \<and> sheet_name sheet = deviceMetadataSheetName
      \<and> (''species'' \<notin> set (Object_keys r) \<or> ''device_id'' \<notin> set (Object_keys r))
    \<longrightarrow> parse_row env cf sheet user hs vals
          = Inr \<lparr>parsed_row = r,
                  row_errors = assign (checkGenericErrors env
                                  (removeEmptyProps env (rowWithHeader hs vals)) cf
                                  (obtainColumnTypes env))
                                ''missing_data'' missing_data,
                  row_warnings = [], success = False\<rparr>)"
proof (intro conjI impI)
  assume "''species'' \<notin> set (Object_keys (parsed_row rowres))
      \<or> ''device_id'' \<notin> set (Object_keys (parsed_row rowres))"
  from requireFields_absent [OF this]
  show "checkAnimalDeviceErrorsAndWarns env rowres user
          = Inr (\<lparr>cell_errors = [(''missing_data'', missing_data)], warnings = []\<rparr>, [])"
    by (simp add: checkAnimalDeviceErrorsAndWarns_def)
next
  let ?crow = "removeEmptyProps env (rowWithHeader hs vals)"
  let ?E = "checkGenericErrors env ?crow cf (obtainColumnTypes env)"
  assume a: "convert_dates env (obtainColumnTypes env) (Object_keys ?crow) ?crow = Inr r
      \<and> sheet_name sheet = deviceMetadataSheetName
      \<and> (''species'' \<notin> set (Object_keys r) \<or> ''device_id'' \<notin> set (Object_keys r))"
  then have "requireFields r = False"
    using requireFields_absent by blast
  then have c: "checkAnimalDeviceErrorsAndWarns env
        \<lparr>parsed_row = r, row_errors = ?E, row_warnings = [], success = False\<rparr> user
      = Inr (\<lparr>cell_errors = [(''missing_data'', missing_data)], warnings = []\<rparr>, [])"
    by (simp add: checkAnimalDeviceErrorsAndWarns_def)
  from a c show "parse_row env cf sheet user hs vals
          = Inr \<lparr>parsed_row = r, row_errors = assign ?E ''missing_data'' missing_data,
                  row_warnings = [], success = False\<rparr>"
    by (simp add: parse_row_def Let_def spread_single set_success_def Object_keys_def
          assign_not_Nil)
qed

lemma scenarioA_facts:
  "convert_dates scenario_env (obtainColumnTypes scenario_env)
     (Object_keys (removeEmptyProps scenario_env
        (rowWithHeader (map (mapXlsxHeader scenario_env) metadataRequiredHeaders)
           (cells (JString ''A1'') JUndefined JUndefined JUndefined))))
     (removeEmptyProps scenario_env
        (rowWithHeader (map (mapXlsxHeader scenario_env) metadataRequiredHeaders)
           (cells (JString ''A1'') JUndefined JUndefined JUndefined)))
   = Inr [(''animal_id'', JString ''A1'')]"
  "sheet_name (scenario_workbook ! 0) = deviceMetadataSheetName"
  "checkGenericErrors scenario_env
     (removeEmptyProps scenario_env
        (rowWithHeader (map (mapXlsxHeader scenario_env) metadataRequiredHeaders)
           (cells (JString ''A1'') JUndefined JUndefined JUndefined)))
     (code_header_rows scenario_env @ extraCodeFields) (obtainColumnTypes scenario_env) = []"
  by code_simp+

theorem missing_required_fields_witness:
  "''species'' \<notin> set (Object_keys [(''animal_id'', JString ''A1'')])
   \<and> ''device_id'' \<notin> set (Object_keys [(''animal_id'', JString ''A1'')])
   \<and> parse_row scenario_env (code_header_rows scenario_env @ extraCodeFields)
         (scenario_workbook ! 0) ''u'' (map (mapXlsxHeader scenario_env) metadataRequiredHeaders)
         (cells (JString ''A1'') JUndefined JUndefined JUndefined)
       = Inr \<lparr>parsed_row = [(''animal_id'', JString ''A1'')],
               row_errors = [(''missing_data'',
                   \<lparr>desc = ''You have not provided sufficient data.'',
                    help_text = ''You have not provided sufficient data.'',
                    valid_values = None\<rparr>)],
               row_warnings = [], success = False\<rparr>
   \<and> checkAnimalDeviceErrorsAndWarns scenario_env
         \<lparr>parsed_row = [(''animal_id'', JString ''A1'')], row_errors = [], row_warnings = [],
          success = False\<rparr> ''u''
       = Inr (\<lparr>cell_errors = [(''missing_data'',
                   \<lparr>desc = ''You have not provided sufficient data.'',
                    help_text = ''You have not provided sufficient data.'',
                    valid_values = None\<rparr>)], warnings = []\<rparr>, [])"
proof -
  have h: "''species'' \<notin> set (Object_keys [(''animal_id'', JString ''A1'')])"
          "''device_id'' \<notin> set (Object_keys [(''animal_id'', JString ''A1'')])"
    by (simp_all add: Object_keys_def)
  from missing_required_fields
         [of "\<lparr>parsed_row = [(''animal_id'', JString ''A1'')], row_errors = [], row_warnings = [],
               success = False\<rparr>" scenario_env "''u''"
             "map (mapXlsxHeader scenario_env) metadataRequiredHeaders"
             "cells (JString ''A1'') JUndefined JUndefined JUndefined"
             "[(''animal_id'', JString ''A1'')]" "scenario_workbook ! 0"
             "code_header_rows scenario_env @ extraCodeFields"]
       h scenarioA_facts
  show ?thesis
    by (simp add: missing_data_def assign_def)
qed

text \<open>
  The claim as stated fails: a row without device id whose species is not in the code list
  has two errors, one under \<open>species\<close> and one under \<open>missing_data\<close>.
\<close>

theorem field_error_beside_missing_data_counterexample:
  "''device_id'' \<notin> set (Object_keys [(''animal_id'', JString ''A2''),
        (''species'', JString ''Caribou''), (''capture_date'', JString ''2021-05-05'')])
   \<and> parse_row scenario_env (code_header_rows scenario_env @ extraCodeFields)
         (scenario_workbook ! 0) ''u'' (map (mapXlsxHeader scenario_env) metadataRequiredHeaders)
         (cells (JString ''A2'') (JString ''Caribou'') (JDate 1620172800000) JUndefined)
       = Inr \<lparr>parsed_row = [(''animal_id'', JString ''A2''), (''species'', JString ''Caribou''),
                              (''capture_date'', JString ''2021-05-05'')],
               row_errors =
                 [(''species'',
                   \<lparr>desc = ''This value is not a valid code for this field.'',
                    help_text = ''This field must contain a value from the list of acceptable values.'',
                    valid_values = Some [''Moose'', ''Grizzly Bear'', ''Grey Wolf'']\<rparr>),
                  (''missing_data'',
                   \<lparr>desc = ''You have not provided sufficient data.'',
                    help_text = ''You have not provided sufficient data.'',
                    valid_values = None\<rparr>)],
               row_warnings = [], success = False\<rparr>"
  by code_simp


lemma verifyAssignment_errors:
  "cell_errors (fst (verifyAssignment env r user))
     = (if list_ex (link_overlaps env r) (get_device_assignment_history env (js_get r ''device_id''))
        then [(''device_id'', device_assigned)] else [])"
  by (simp add: verifyAssignment_def Let_def)


lemma set_success_simps:
  "success (set_success rowObj) = (row_errors rowObj = [])"
  "row_errors (set_success rowObj) = row_errors rowObj"
  "row_warnings (set_success rowObj) = row_warnings rowObj"
  "parsed_row (set_success rowObj) = parsed_row rowObj"
  by (simp_all add: set_success_def Object_keys_def)

lemma parse_row_success:
  assumes "parse_row env cf sheet user hs vals = Inr rowObj"
  shows "success rowObj = (row_errors rowObj = [])"
  using assms
  by (auto simp: parse_row_def Let_def set_success_simps split: sum.splits if_splits prod.splits)

lemma parse_row_metadata:
  assumes "parse_row env cf sheet user hs vals = Inr rowObj"
    and "sheet_name sheet = deviceMetadataSheetName"
  shows "\<exists>E ew calls.
      checkAnimalDeviceErrorsAndWarns env
         \<lparr>parsed_row = parsed_row rowObj, row_errors = E, row_warnings = [], success = False\<rparr> user
        = Inr (ew, calls)
    \<and> row_errors rowObj = spread E (cell_errors ew)
    \<and> row_warnings rowObj = warnings ew"
proof -
  let ?E = "checkGenericErrors env (removeEmptyProps env (rowWithHeader hs vals)) cf
              (obtainColumnTypes env)"
  from assms obtain r' ew calls where
    c: "checkAnimalDeviceErrorsAndWarns env
          \<lparr>parsed_row = r', row_errors = ?E, row_warnings = [], success = False\<rparr> user
        = Inr (ew, calls)"
    and r: "rowObj = set_success
          \<lparr>parsed_row = r', row_errors = spread ?E (cell_errors ew),
           row_warnings = warnings ew, success = False\<rparr>"
    by (auto simp: parse_row_def Let_def split: sum.splits if_splits prod.splits)
  from r have "parsed_row rowObj = r'" "row_errors rowObj = spread ?E (cell_errors ew)"
    "row_warnings rowObj = warnings ew"
    by (simp_all add: set_success_simps)
  with c show ?thesis
    by blast
qed



lemma verifyAssignment_warnings_no_critter:
  assumes "\<not> truthy (js_get r ''critter_id'')"
  shows "snd (verifyAssignment env r user) = [DeviceAssignmentHistory (js_get r ''device_id'')]"
    and "multiple_devices \<notin> set (warnings (fst (verifyAssignment env r user)))"
  using assms
  by (auto simp: verifyAssignment_def Let_def previous_deployments_def multiple_devices_def)


lemma checkAnimalDeviceErrorsAndWarns_warnings:
  assumes "checkAnimalDeviceErrorsAndWarns env rowres user = Inr (ew, calls)"
    and "requireFields (parsed_row rowres)"
  shows "set (warnings (fst (verifyAssignment env (parsed_row rowres) user))) \<subseteq> set (warnings ew)"
  using assms
  by (auto simp: checkAnimalDeviceErrorsAndWarns_def split: prod.splits option.splits if_splits)







text \<open>
  Claim C8, as amended. For a row that carries a critter id, when an assignment of the
  history of that animal overlaps the interval of the row, \<open>verifyAssignment\<close> adds the
  warning about multiple devices, which prompts, and the parsed row has it; the errors are
  decided by the history of the device alone, and are the same as for an animal without
  history. For a row without a critter id the history of the animal is not looked up and
  the warning is not given.
\<close>

theorem animal_overlap_prompts:
  "(truthy (js_get r ''critter_id'')
    \<and> list_ex (link_overlaps env r)
          (get_animal_collar_assignment_history env user (js_get r ''critter_id''))
    \<longrightarrow> multiple_devices \<in> set (warnings (fst (verifyAssignment env r user)))
        \<and> prompt multiple_devices = True
        \<and> cell_errors (fst (verifyAssignment env r user))
            = (if list_ex (link_overlaps env r)
                    (get_device_assignment_history env (js_get r ''device_id''))
               then [(''device_id'', device_assigned)] else [])
        \<and> cell_errors (fst (verifyAssignment env r user))
            = cell_errors (fst (verifyAssignment
                 (env\<lparr>get_animal_collar_assignment_history := \<lambda>u c. []\<rparr>) r user)))
   \<and> (parse_row env cf sheet user hs vals = Inr rowObj
      \<and> sheet_name sheet = deviceMetadataSheetName
      \<and> requireFields (parsed_row rowObj)
      \<and> truthy (js_get (parsed_row rowObj) ''critter_id'')
      \<and> list_ex (link_overlaps env (parsed_row rowObj))
            (get_animal_collar_assignment_history env user (js_get (parsed_row rowObj) ''critter_id''))
      \<longrightarrow> multiple_devices \<in> set (row_warnings rowObj))
   \<and> (\<not> truthy (js_get r ''critter_id'')
      \<longrightarrow> snd (verifyAssignment env r user) = [DeviceAssignmentHistory (js_get r ''device_id'')]
          \<and> multiple_devices \<notin> set (warnings (fst (verifyAssignment env r user))))"
proof (intro conjI impI)
  assume a: "truthy (js_get r ''critter_id'')
    \<and> list_ex (link_overlaps env r)
          (get_animal_collar_assignment_history env user (js_get r ''critter_id''))"
  then show "multiple_devices \<in> set (warnings (fst (verifyAssignment env r user)))"
    by (simp add: verifyAssignment_def Let_def)
  show "prompt multiple_devices = True"
    by (simp add: multiple_devices_def)
  show "cell_errors (fst (verifyAssignment env r user))
           = (if list_ex (link_overlaps env r)
                   (get_device_assignment_history env (js_get r ''device_id''))
              then [(''device_id'', device_assigned)] else [])"
    by (rule verifyAssignment_errors)
  have "link_overlaps (env\<lparr>get_animal_collar_assignment_history := \<lambda>u c. []\<rparr>) r
          = link_overlaps env r"
    by (rule ext) (simp add: link_overlaps_def row_start_def)
  then show "cell_errors (fst (verifyAssignment env r user))
           = cell_errors (fst (verifyAssignment
                (env\<lparr>get_animal_collar_assignment_history := \<lambda>u c. []\<rparr>) r user))"
    by (simp add: verifyAssignment_errors)
next
  assume a: "parse_row env cf sheet user hs vals = Inr rowObj
      \<and> sheet_name sheet = deviceMetadataSheetName
      \<and> requireFields (parsed_row rowObj)
      \<and> truthy (js_get (parsed_row rowObj) ''critter_id'')
      \<and> list_ex (link_overlaps env (parsed_row rowObj))
            (get_animal_collar_assignment_history env user (js_get (parsed_row rowObj) ''critter_id''))"
  then obtain E ew calls where
    c: "checkAnimalDeviceErrorsAndWarns env
         \<lparr>parsed_row = parsed_row rowObj, row_errors = E, row_warnings = [], success = False\<rparr> user
        = Inr (ew, calls)"
    and w: "row_warnings rowObj = warnings ew"
    using parse_row_metadata by blast
  from a have "multiple_devices \<in> set (warnings (fst (verifyAssignment env (parsed_row rowObj) user)))"
    by (simp add: verifyAssignment_def Let_def)
  moreover from a have "set (warnings (fst (verifyAssignment env (parsed_row rowObj) user)))
                          \<subseteq> set (warnings ew)"
    using checkAnimalDeviceErrorsAndWarns_warnings [OF c] by simp
  ultimately show "multiple_devices \<in> set (row_warnings rowObj)"
    using w by auto
next
  assume a: "\<not> truthy (js_get r ''critter_id'')"
  then show "snd (verifyAssignment env r user) = [DeviceAssignmentHistory (js_get r ''device_id'')]"
    by (rule verifyAssignment_warnings_no_critter)
  from a show "multiple_devices \<notin> set (warnings (fst (verifyAssignment env r user)))"
    by (rule verifyAssignment_warnings_no_critter)
qed

lemma collared_facts:
  "truthy (js_get collared_row ''critter_id'')"
  "list_ex (link_overlaps collared_env collared_row)
     (get_animal_collar_assignment_history collared_env ''u'' (js_get collared_row ''critter_id''))"
  "\<not> list_ex (link_overlaps collared_env collared_row)
       (get_device_assignment_history collared_env (js_get collared_row ''device_id''))"
  "\<not> truthy (js_get later_row ''critter_id'')"
  by code_simp+

lemma collared_parse:
  "parse_row collared_env (code_header_rows collared_env @ extraCodeFields) (scenario_workbook ! 0)
     ''u'' [''species'', ''device_id'', ''critter_id'', ''capture_date'']
     [JUndefined, JString ''Moose'', JNumber 103, JString ''c7'', JDate 1583020800000]
   = Inr \<lparr>parsed_row = [(''species'', JString ''Moose''), (''device_id'', JNumber 103),
                          (''critter_id'', JString ''c7''),
                          (''capture_date'', JString ''2020-03-01'')],
           row_errors = [], row_warnings = [multiple_devices, new_animal], success = True\<rparr>"
  "sheet_name (scenario_workbook ! 0) = deviceMetadataSheetName"
  "requireFields [(''species'', JString ''Moose''), (''device_id'', JNumber 103),
                  (''critter_id'', JString ''c7''), (''capture_date'', JString ''2020-03-01'')]"
  "truthy (js_get [(''species'', JString ''Moose''), (''device_id'', JNumber 103),
                  (''critter_id'', JString ''c7''), (''capture_date'', JString ''2020-03-01'')]
             ''critter_id'')"
  "list_ex (link_overlaps collared_env [(''species'', JString ''Moose''), (''device_id'', JNumber 103),
                  (''critter_id'', JString ''c7''), (''capture_date'', JString ''2020-03-01'')])
     (get_animal_collar_assignment_history collared_env ''u''
        (js_get [(''species'', JString ''Moose''), (''device_id'', JNumber 103),
                  (''critter_id'', JString ''c7''), (''capture_date'', JString ''2020-03-01'')]
             ''critter_id''))"
  by code_simp+

theorem animal_overlap_prompts_witness:
  "truthy (js_get collared_row ''critter_id'')
   \<and> list_ex (link_overlaps collared_env collared_row)
         (get_animal_collar_assignment_history collared_env ''u'' (js_get collared_row ''critter_id''))
   \<and> multiple_devices \<in> set (warnings (fst (verifyAssignment collared_env collared_row ''u'')))
   \<and> cell_errors (fst (verifyAssignment collared_env collared_row ''u'')) = []
   \<and> (case parse_row collared_env (code_header_rows collared_env @ extraCodeFields)
              (scenario_workbook ! 0) ''u''
              [''species'', ''device_id'', ''critter_id'', ''capture_date'']
              [JUndefined, JString ''Moose'', JNumber 103, JString ''c7'', JDate 1583020800000] of
         Inl e \<Rightarrow> False
       | Inr rowObj \<Rightarrow> truthy (js_get (parsed_row rowObj) ''critter_id'')
                     \<and> multiple_devices \<in> set (row_warnings rowObj))
   \<and> snd (verifyAssignment collared_env later_row ''u'')
       = [DeviceAssignmentHistory (js_get later_row ''device_id'')]"
proof -
  let ?r = "[(''species'', JString ''Moose''), (''device_id'', JNumber 103),
             (''critter_id'', JString ''c7''), (''capture_date'', JString ''2020-03-01'')]"
  let ?rowObj = "\<lparr>parsed_row = ?r, row_errors = [],
                   row_warnings = [multiple_devices, new_animal], success = True\<rparr>"
  have row: "multiple_devices \<in> set (row_warnings ?rowObj)"
    using animal_overlap_prompts [where env = collared_env and user = "''u''"
            and cf = "code_header_rows collared_env @ extraCodeFields"
            and sheet = "scenario_workbook ! 0"
            and hs = "[''species'', ''device_id'', ''critter_id'', ''capture_date'']"
            and vals = "[JUndefined, JString ''Moose'', JNumber 103, JString ''c7'',
                         JDate 1583020800000]"
            and rowObj = ?rowObj]
          collared_parse
    by simp
  from animal_overlap_prompts [where env = collared_env and r = collared_row and user = "''u''"]
       animal_overlap_prompts [where env = collared_env and r = later_row and user = "''u''"]
       collared_facts collared_parse row
  show ?thesis
    by simp
qed

text \<open>
  The claim as stated fails: a row of the template has no critter id. When the identity
  match finds its animal existing and that animal wears a collar over the interval of the
  row, the history of the animal is not looked up and the row gets no warning.
\<close>

theorem known_animal_without_critter_id_counterexample:
  "is_new_animal known_animal_env
     [(''animal_id'', JString ''A7''), (''species'', JString ''Moose''),
      (''capture_date'', JString ''2020-03-01''), (''device_id'', JNumber 103)]
     = Some [(''is_new'', JBool False)]
   \<and> list_ex (link_overlaps known_animal_env
         [(''animal_id'', JString ''A7''), (''species'', JString ''Moose''),
          (''capture_date'', JString ''2020-03-01''), (''device_id'', JNumber 103)])
       (get_animal_collar_assignment_history known_animal_env ''u'' (JString ''c7''))
   \<and> parse_row known_animal_env (code_header_rows known_animal_env @ extraCodeFields)
         (scenario_workbook ! 0) ''u'' (map (mapXlsxHeader known_animal_env) metadataRequiredHeaders)
         (cells (JString ''A7'') (JString ''Moose'') (JDate 1583020800000) (JNumber 103))
       = Inr \<lparr>parsed_row = [(''animal_id'', JString ''A7''), (''species'', JString ''Moose''),
                              (''capture_date'', JString ''2020-03-01''),
                              (''device_id'', JNumber 103)],
               row_errors = [], row_warnings = [], success = True\<rparr>
   \<and> checkAnimalDeviceErrorsAndWarns known_animal_env
         \<lparr>parsed_row = [(''animal_id'', JString ''A7''), (''species'', JString ''Moose''),
                         (''capture_date'', JString ''2020-03-01''), (''device_id'', JNumber 103)],
          row_errors = [], row_warnings = [], success = False\<rparr> ''u''
       = Inr (\<lparr>cell_errors = [], warnings = []\<rparr>,
              [DeviceAssignmentHistory (JNumber 103),
               IsNewAnimal [(''animal_id'', JString ''A7''), (''species'', JString ''Moose''),
                            (''capture_date'', JString ''2020-03-01''),
                            (''device_id'', JNumber 103)]])"
  by code_simp


lemma parse_rows_success:
  assumes "parse_rows env cf sheet user hs ixs acc = Inr rs"
    and "\<forall>rowObj\<in>set acc. success rowObj = (row_errors rowObj = [])"
  shows "\<forall>rowObj\<in>set rs. success rowObj = (row_errors rowObj = [])"
  using assms
proof (induction ixs arbitrary: acc)
  case Nil
  then show ?case by simp
next
  case (Cons i ixs)
  from Cons.prems(1) obtain rowObj where
    r: "parse_row env cf sheet user hs (getRow_values sheet i) = Inr rowObj"
    and rest: "parse_rows env cf sheet user hs ixs (acc @ [rowObj]) = Inr rs"
    by (auto split: sum.splits)
  have "\<forall>x\<in>set (acc @ [rowObj]). success x = (row_errors x = [])"
    using Cons.prems(2) parse_row_success [OF r] by auto
  with Cons.IH [OF rest] show ?case by blast
qed

lemma parse_sheet_success:
  assumes "parse_sheet env cf workbook user req = Inr res"
  shows "\<forall>rowObj\<in>set (rows res). success rowObj = (row_errors rowObj = [])"
proof -
  from assms obtain sheet hs ixs rs where
    "parse_rows env cf sheet user hs ixs [] = Inr rs" "rows res = rs"
    by (auto simp: parse_sheet_def Let_def simp del: upt_Suc
          split: option.splits if_splits sum.splits)
  then show ?thesis
    using parse_rows_success by fastforce
qed

lemma parse_sheets_success:
  assumes "\<forall>sh\<in>set acc. \<forall>rowObj\<in>set (rows sh). success rowObj = (row_errors rowObj = [])"
  shows "\<forall>sh\<in>set (fst (parse_sheets env cf workbook user reqs acc)).
           \<forall>rowObj\<in>set (rows sh). success rowObj = (row_errors rowObj = [])"
  using assms
proof (induction reqs arbitrary: acc)
  case Nil
  then show ?case by simp
next
  case (Cons req reqs)
  show ?case
  proof (cases "parse_sheet env cf workbook user req")
    case (Inl e)
    with Cons.prems show ?thesis by simp
  next
    case (Inr res)
    have "\<forall>sh\<in>set (acc @ [res]). \<forall>rowObj\<in>set (rows sh). success rowObj = (row_errors rowObj = [])"
      using Cons.prems parse_sheet_success [OF Inr] by auto
    from Cons.IH [OF this] Inr show ?thesis by simp
  qed
qed

text \<open>
  Claim C5. In every row result that \<open>parseXlsx\<close> hands to the callback, \<open>success\<close> holds
  exactly when the error mapping of the row is empty, whatever its warnings are.
\<close>

theorem success_iff_no_errors:
  "\<forall>sh\<in>set (fst (parseXlsx env workbook user)).
     \<forall>rowObj\<in>set (rows sh). success rowObj = (row_errors rowObj = [])"
  unfolding parseXlsx_def by (rule parse_sheets_success) simp


lemma scenario_flags:
  "map (\<lambda>sh. map success (rows sh)) (fst (parseXlsx scenario_env scenario_workbook ''u''))
     = [[False, False, True], []]"
  by code_simp

theorem success_iff_no_errors_witness:
  "map (\<lambda>sh. map success (rows sh)) (fst (parseXlsx scenario_env scenario_workbook ''u''))
     = [[False, False, True], []]
   \<and> map (\<lambda>sh. map (\<lambda>rowObj. row_errors rowObj = []) (rows sh))
         (fst (parseXlsx scenario_env scenario_workbook ''u''))
     = [[False, False, True], []]"
proof -
  have "map (\<lambda>sh. map (\<lambda>rowObj. row_errors rowObj = []) (rows sh))
          (fst (parseXlsx scenario_env scenario_workbook ''u''))
        = map (\<lambda>sh. map success (rows sh)) (fst (parseXlsx scenario_env scenario_workbook ''u''))"
    using success_iff_no_errors [of scenario_env scenario_workbook "''u''"]
    by (simp cong: map_cong)
  with scenario_flags show ?thesis
    by simp
qed

text \<open>
  Claim C6 fails on the code. A text that is no date, in a date column, is given its error
  by \<open>checkGenericErrors\<close>; the rewriting of the date columns then throws on it, the
  \<open>catch\<close> block of \<open>parseXlsx\<close> logs the exception, and the callback receives the
  results of the sheets finished before: here none, so that the valid rows before and
  after the malformed cell are lost with it.
\<close>

theorem malformed_date_aborts_pass:
  "Date_parse scenario_env ''next week'' = None
   \<and> check_cell scenario_env
         [(''animal_id'', JString ''A4''), (''species'', JString ''Moose''),
          (''capture_date'', JString ''next week''), (''device_id'', JNumber 104)]
         (code_header_rows scenario_env @ extraCodeFields) (obtainColumnTypes scenario_env)
         ''capture_date''
       = Some \<lparr>desc = ''This field must be a valid date format.'',
               help_text = ''You have incorrectly formatted this date field. One way you can ensure correct formatting for a cell of this type is to change the Number Format dropdown in Excel.'',
               valid_values = None\<rparr>
   \<and> parseXlsx scenario_env malformed_workbook ''u''
       = ([], Some (RangeError ''Invalid time value''))"
  by code_simp


end
